theory Spec2Isabelle
  imports Complex_Main
begin

section \<open>Numbers of the program\<close>

text \<open>
  Every number of the program is a JavaScript number. A finite number is modelled by the
  real it denotes (rounding and overflow are not modelled, and the two zeros are one
  value); the two infinities and NaN are values of their own, so that a division by zero
  or the square root of a negative number is a visible result and not a real.
\<close>

datatype jsnum = Num real | PInf | NInf | NaN

fun isFinite :: "jsnum \<Rightarrow> bool" where
  "isFinite (Num a) = True"
| "isFinite _ = False"

text \<open>\<open>a < b\<close>; every comparison with NaN is false.\<close>

fun js_lt :: "jsnum \<Rightarrow> jsnum \<Rightarrow> bool" where
  "js_lt NaN b = False"
| "js_lt a NaN = False"
| "js_lt (Num a) (Num b) = (a < b)"
| "js_lt (Num a) PInf = True"
| "js_lt (Num a) NInf = False"
| "js_lt PInf b = False"
| "js_lt NInf NInf = False"
| "js_lt NInf b = True"

text \<open>\<open>a === b\<close> on numbers: NaN is not equal to itself.\<close>

definition js_seq :: "jsnum \<Rightarrow> jsnum \<Rightarrow> bool" where
  "js_seq a b = (a \<noteq> NaN \<and> a = b)"

definition js_gt :: "jsnum \<Rightarrow> jsnum \<Rightarrow> bool" where
  "js_gt a b = js_lt b a"

definition js_le :: "jsnum \<Rightarrow> jsnum \<Rightarrow> bool" where
  "js_le a b = (js_lt a b \<or> js_seq a b)"

definition js_ge :: "jsnum \<Rightarrow> jsnum \<Rightarrow> bool" where
  "js_ge a b = js_le b a"

fun js_neg :: "jsnum \<Rightarrow> jsnum" where
  "js_neg (Num a) = Num (- a)"
| "js_neg PInf = NInf"
| "js_neg NInf = PInf"
| "js_neg NaN = NaN"

text \<open>\<open>Math.abs\<close>.\<close>

fun js_abs :: "jsnum \<Rightarrow> jsnum" where
  "js_abs (Num a) = Num \<bar>a\<bar>"
| "js_abs PInf = PInf"
| "js_abs NInf = PInf"
| "js_abs NaN = NaN"

fun js_add :: "jsnum \<Rightarrow> jsnum \<Rightarrow> jsnum" where
  "js_add NaN b = NaN"
| "js_add a NaN = NaN"
| "js_add (Num a) (Num b) = Num (a + b)"
| "js_add (Num a) b = b"
| "js_add PInf NInf = NaN"
| "js_add NInf PInf = NaN"
| "js_add a b = a"

definition js_sub :: "jsnum \<Rightarrow> jsnum \<Rightarrow> jsnum" where
  "js_sub a b = js_add a (js_neg b)"

text \<open>The infinity whose sign is that of the real \<open>s\<close> (\<open>s\<close> is not zero where this is used).\<close>

definition inf_of_sign :: "real \<Rightarrow> jsnum" where
  "inf_of_sign s = (if 0 < s then PInf else NInf)"

fun js_mul :: "jsnum \<Rightarrow> jsnum \<Rightarrow> jsnum" where
  "js_mul NaN b = NaN"
| "js_mul a NaN = NaN"
| "js_mul (Num a) (Num b) = Num (a * b)"
| "js_mul (Num a) PInf = (if a = 0 then NaN else inf_of_sign a)"
| "js_mul (Num a) NInf = (if a = 0 then NaN else inf_of_sign (- a))"
| "js_mul PInf (Num b) = (if b = 0 then NaN else inf_of_sign b)"
| "js_mul NInf (Num b) = (if b = 0 then NaN else inf_of_sign (- b))"
| "js_mul PInf PInf = PInf"
| "js_mul PInf NInf = NInf"
| "js_mul NInf PInf = NInf"
| "js_mul NInf NInf = PInf"

text \<open>
  \<open>a / b\<close>. A finite number divided by zero is an infinity (NaN for \<open>0 / 0\<close>); the divisor
  zero is taken as the positive zero.
\<close>

fun js_div :: "jsnum \<Rightarrow> jsnum \<Rightarrow> jsnum" where
  "js_div NaN b = NaN"
| "js_div a NaN = NaN"
| "js_div (Num a) (Num b) =
     (if b = 0 then (if a = 0 then NaN else inf_of_sign a) else Num (a / b))"
| "js_div (Num a) b = Num 0"
| "js_div PInf (Num b) = (if 0 \<le> b then PInf else NInf)"
| "js_div NInf (Num b) = (if 0 \<le> b then NInf else PInf)"
| "js_div a b = NaN"

text \<open>\<open>Math.sqrt\<close>: NaN below zero.\<close>

fun js_sqrt :: "jsnum \<Rightarrow> jsnum" where
  "js_sqrt (Num a) = (if a < 0 then NaN else Num (sqrt a))"
| "js_sqrt PInf = PInf"
| "js_sqrt NInf = NaN"
| "js_sqrt NaN = NaN"

text \<open>\<open>Math.min\<close> of two numbers: NaN when either is NaN.\<close>

definition js_min :: "jsnum \<Rightarrow> jsnum \<Rightarrow> jsnum" where
  "js_min a b = (if a = NaN \<or> b = NaN then NaN else if js_lt b a then b else a)"

section \<open>BarHighlighter\<close>

text \<open>
  A range of a stacked entry is the two-element array \<open>[start, end]\<close>: the code reads its
  end as \<open>ranges[i][1]\<close>. \<open>ranges[i].includes(value)\<close> is therefore the array method, which
  tells whether \<open>value\<close> is one of the two elements (NaN is found, the two zeros are the
  same element).
\<close>

type_synonym range = "jsnum \<times> jsnum"

definition range_includes :: "range \<Rightarrow> jsnum \<Rightarrow> bool" where
  "range_includes r v = (fst r = v \<or> snd r = v)"

text \<open>The \<open>for\<close> loop of \<open>getClosestStackIndex\<close> from index \<open>i\<close> on: the index it returns, if any.\<close>

fun scanRanges :: "range list \<Rightarrow> jsnum \<Rightarrow> nat \<Rightarrow> nat option" where
  "scanRanges [] v i = None"
| "scanRanges (r # rs) v i = (if range_includes r v then Some i else scanRanges rs v (Suc i))"

definition getClosestStackIndex :: "range list \<Rightarrow> jsnum \<Rightarrow> nat" where
  "getClosestStackIndex ranges v =
     (if length ranges = 0 then 0
      else case scanRanges ranges v 0 of
             Some i \<Rightarrow> i
           | None \<Rightarrow>
               (let len = max (length ranges - 1) 0
                in if js_gt v (snd (ranges ! len)) then len else 0))"

section \<open>Entries, highlights and data sets\<close>

datatype error = TypeError

datatype AxisDependency = LEFT | RIGHT

text \<open>
  An entry. \<open>props e k\<close> is the property read \<open>e[k]\<close> (so \<open>e.x\<close> is \<open>props e ''x''\<close>); the
  data sets name the x and y properties of their entries and these are numbers.
  \<open>yVals\<close> is \<open>None\<close> for \<open>null\<close>. \<open>ranges\<close> and \<open>negativeSum\<close> are the values cached on a
  stacked entry; the class that computes them is not part of the sources, and \<open>ranges\<close>
  is taken to be a sequence, as the data model describes it.
\<close>

record Entry =
  props :: "string \<Rightarrow> jsnum"
  yVals :: "jsnum list option"
  ranges :: "range list"
  negativeSum :: jsnum

text \<open>
  A highlight. \<open>hx\<close> and \<open>hy\<close> are the fields \<open>x\<close> and \<open>y\<close>; an optional field that is
  absent from the object is \<open>None\<close>.
\<close>

record Highlight =
  hx :: jsnum
  hy :: jsnum
  xPx :: "jsnum option"
  yPx :: "jsnum option"
  dataSetIndex :: int
  stackIndex :: "nat option"
  axis :: "AxisDependency option"
  entry :: "Entry option"
  entryIndex :: "int option"
  drawX :: "jsnum option"
  drawY :: "jsnum option"

text \<open>
  The data sets, the transformer, the chart and the parent classes are interfaces to
  code outside the sources: they are parameters of the model, records of the results
  their methods return. A method that returns \<open>null\<close> returns \<open>None\<close>.
\<close>

record DataSet =
  xProperty :: string
  yProperty :: string
  getAxisDependency :: AxisDependency
  getEntryCount :: nat
  getEntryForIndex :: "int \<Rightarrow> Entry option"
  isHighlightEnabled :: bool

record BarDataSet = DataSet +
  isStacked :: bool
  getEntryForXValue :: "jsnum \<Rightarrow> jsnum \<Rightarrow> Entry option"

type_synonym Color = string

record BubbleDataSet = DataSet +
  sizeProperty :: string
  isNormalizeSizeEnabled :: bool
  getMaxSize :: jsnum
  getEntryXValue :: "Entry \<Rightarrow> int option \<Rightarrow> jsnum"
  getEntryAndIndexForXValue :: "jsnum \<Rightarrow> jsnum \<Rightarrow> Entry option \<times> int option"
  getColor :: "jsnum \<Rightarrow> Color"
  getHighLightColor :: Color
  getHighlightCircleWidth :: jsnum

text \<open>
  \<open>getPixelForValues x y\<close> is the pixel point of one value point;
  \<open>pointValuesToPixel\<close> maps a buffer of points in place, point by point, and is given
  here by what it does to one point.
\<close>

record Transformer =
  getPixelForValues :: "jsnum \<Rightarrow> jsnum \<Rightarrow> jsnum \<times> jsnum"
  pointValuesToPixel :: "jsnum \<times> jsnum \<Rightarrow> jsnum \<times> jsnum"

record 'ds ChartData =
  getDataSetByIndex :: "int \<Rightarrow> 'ds option"

record Chart =
  getTransformer :: "AxisDependency \<Rightarrow> Transformer"

record BarChart = Chart +
  mData :: "BarDataSet ChartData option"
  mHighlightFullBarEnabled :: bool

text \<open>
  The bar highlighter: its chart, and the two methods it inherits from
  \<open>ChartHighlighter\<close> (\<open>super.getHighlight\<close> and \<open>getValsForTouch\<close>).
\<close>

record BarHighlighter =
  mChart :: BarChart
  super_getHighlight :: "jsnum \<Rightarrow> jsnum \<Rightarrow> Highlight option"
  getValsForTouch :: "jsnum \<Rightarrow> jsnum \<Rightarrow> jsnum \<times> jsnum"

text \<open>
  \<open>ranges[stackIndex]\<close> outside the array is \<open>undefined\<close>, and reading \<open>[1]\<close> of it raises
  a TypeError.
\<close>

definition getStackedHighlight ::
  "BarHighlighter \<Rightarrow> Highlight \<Rightarrow> BarDataSet \<Rightarrow> jsnum \<Rightarrow> jsnum \<Rightarrow> error + Highlight option" where
  "getStackedHighlight this high dset xVal yVal =
     (case getEntryForXValue dset xVal yVal of
        None \<Rightarrow> Inr None
      | Some e \<Rightarrow>
          (case yVals e of
             None \<Rightarrow> Inr (Some high)
           | Some vals \<Rightarrow>
               if length (ranges e) > 0 then
                 (let si = getClosestStackIndex (ranges e) yVal
                  in if si < length (ranges e) then
                       (let pixels = getPixelForValues
                                       (getTransformer (mChart this) (getAxisDependency dset))
                                       (hx high) (snd (ranges e ! si))
                        in Inr (Some \<lparr> hx = props e (xProperty dset),
                                       hy = props e (yProperty dset),
                                       xPx = Some (fst pixels),
                                       yPx = Some (snd pixels),
                                       dataSetIndex = dataSetIndex high,
                                       stackIndex = Some si,
                                       axis = axis high,
                                       entry = None, entryIndex = None,
                                       drawX = None, drawY = None \<rparr>))
                     else Inl TypeError)
               else Inr None))"



section \<open>HorizontalBarBuffer\<close>

text \<open>
  The buffer with the fields of its parent classes. \<open>buffer\<close> is a numeric array of fixed
  size and \<open>index\<close> the write position.
\<close>

record BarBuffer =
  index :: nat
  buffer :: "jsnum list"
  phaseX :: jsnum
  phaseY :: jsnum
  mContainsStacks :: bool
  mInverted :: bool
  mBarWidth :: jsnum

text \<open>
  Modelled from the spec: \<open>BarBuffer.addBar\<close> and \<open>AbstractBuffer.reset\<close> are not part of
  the sources. \<open>addBar\<close> appends the rectangle to the buffer: the four numbers
  left, top, right, bottom go to the write position, which moves on by four (a write
  past the end of the fixed-size array stores nothing). \<open>reset\<close> marks the buffer
  ready: the write position returns to the start.
\<close>

definition addBar :: "BarBuffer \<Rightarrow> jsnum \<Rightarrow> jsnum \<Rightarrow> jsnum \<Rightarrow> jsnum \<Rightarrow> BarBuffer" where
  "addBar b left topE right bottomE =
     b\<lparr> buffer := (buffer b)[index b := left, index b + 1 := topE,
                               index b + 2 := right, index b + 3 := bottomE],
        index := index b + 4 \<rparr>"

definition reset :: "BarBuffer \<Rightarrow> BarBuffer" where
  "reset b = b\<lparr> index := 0 \<rparr>"

text \<open>The branch of \<open>feed\<close> for an entry that is not stacked, at \<open>x = e.x\<close> and \<open>y = e.y\<close>.\<close>

definition feedPlain :: "BarBuffer \<Rightarrow> jsnum \<Rightarrow> jsnum \<Rightarrow> BarBuffer" where
  "feedPlain b x y =
     (let barWidthHalf = js_div (mBarWidth b) (Num 2);
          bottomE = js_sub x barWidthHalf;
          topE = js_add x barWidthHalf;
          left = (if mInverted b then (if js_ge y (Num 0) then y else Num 0)
                  else (if js_le y (Num 0) then y else Num 0));
          right = (if mInverted b then (if js_le y (Num 0) then y else Num 0)
                   else (if js_ge y (Num 0) then y else Num 0));
          right' = (if js_gt right (Num 0) then js_mul right (phaseY b) else right);
          left' = (if js_gt right (Num 0) then left else js_mul left (phaseY b))
      in addBar b left' topE right' bottomE)"

text \<open>
  The loop over the stack values, from the cursors \<open>posY\<close> and \<open>negY\<close> on. \<open>y\<close> and
  \<open>yStart\<close> are assigned in every round before they are read.
\<close>

fun fillStack :: "BarBuffer \<Rightarrow> jsnum \<Rightarrow> jsnum \<Rightarrow> jsnum \<Rightarrow> jsnum list \<Rightarrow> BarBuffer" where
  "fillStack b x posY negY [] = b"
| "fillStack b x posY negY (v # vals) =
     (let y = (if js_ge v (Num 0) then posY else negY);
          yStart = (if js_ge v (Num 0) then js_add posY v else js_add negY (js_abs v));
          posY' = (if js_ge v (Num 0) then yStart else posY);
          negY' = (if js_ge v (Num 0) then negY else js_add negY (js_abs v));
          barWidthHalf = js_div (mBarWidth b) (Num 2);
          bottomE = js_sub x barWidthHalf;
          topE = js_add x barWidthHalf;
          left = (if mInverted b then (if js_ge y yStart then y else yStart)
                  else (if js_le y yStart then y else yStart));
          right = (if mInverted b then (if js_le y yStart then y else yStart)
                   else (if js_ge y yStart then y else yStart))
      in fillStack (addBar b (js_mul left (phaseY b)) topE (js_mul right (phaseY b)) bottomE)
           x posY' negY' vals)"

text \<open>The body of the loop over the entries, for an entry that is not \<open>null\<close>.\<close>

definition feedEntry :: "BarBuffer \<Rightarrow> Entry \<Rightarrow> BarBuffer" where
  "feedEntry b e =
     (let x = props e ''x''; y = props e ''y''
      in case yVals e of
           None \<Rightarrow> feedPlain b x y
         | Some vals \<Rightarrow>
             if \<not> mContainsStacks b then feedPlain b x y
             else fillStack b x (Num 0) (js_neg (negativeSum e)) vals)"

text \<open>
  The number of rounds of \<open>for (let i = 0; i < size; i++)\<close>: \<open>None\<close> when the test never
  fails and the loop does not end.
\<close>

fun loopCount :: "jsnum \<Rightarrow> nat option" where
  "loopCount (Num r) = Some (nat \<lceil>r\<rceil>)"
| "loopCount PInf = None"
| "loopCount NInf = Some 0"
| "loopCount NaN = Some 0"

definition feedStep :: "'a DataSet_scheme \<Rightarrow> nat \<Rightarrow> BarBuffer \<Rightarrow> BarBuffer" where
  "feedStep data i b =
     (case getEntryForIndex data (int i) of None \<Rightarrow> b | Some e \<Rightarrow> feedEntry b e)"

definition feed :: "BarBuffer \<Rightarrow> 'a DataSet_scheme \<Rightarrow> BarBuffer option" where
  "feed b data =
     (case loopCount (js_mul (Num (real (getEntryCount data))) (phaseX b)) of
        None \<Rightarrow> None
      | Some n \<Rightarrow> Some (reset (fold (feedStep data) [0..<n] b)))"

text \<open>The rectangle (left, top, right, bottom) stored at position \<open>i\<close> of a buffer.\<close>

definition barAt :: "jsnum list \<Rightarrow> nat \<Rightarrow> jsnum \<times> jsnum \<times> jsnum \<times> jsnum" where
  "barAt buf i = (buf ! i, buf ! (i + 1), buf ! (i + 2), buf ! (i + 3))"

text \<open>
  The ranges of a stacked entry as the specification words them: two running cursors,
  the positive one and the negative one; a component that is not negative takes
  \<open>[posCursor, posCursor + c]\<close> and moves the positive cursor, a negative one takes
  \<open>[negCursor, negCursor + |c|]\<close> and moves the negative cursor.
\<close>

fun stackRanges :: "jsnum \<Rightarrow> jsnum \<Rightarrow> jsnum list \<Rightarrow> range list" where
  "stackRanges posCursor negCursor [] = []"
| "stackRanges posCursor negCursor (c # cs) =
     (if js_ge c (Num 0)
      then (posCursor, js_add posCursor c) # stackRanges (js_add posCursor c) negCursor cs
      else (negCursor, js_add negCursor (js_abs c))
             # stackRanges posCursor (js_add negCursor (js_abs c)) cs)"

section \<open>BubbleChartRenderer\<close>

definition getShapeSize :: "jsnum \<Rightarrow> jsnum \<Rightarrow> jsnum \<Rightarrow> bool \<Rightarrow> jsnum" where
  "getShapeSize entrySize maxSize reference normalizeSize =
     (let factor = (if normalizeSize
                    then (if js_seq maxSize (Num 0) then Num 1
                          else js_sqrt (js_div entrySize maxSize))
                    else entrySize)
      in js_mul reference factor)"

record ViewPortHandler =
  contentTop :: jsnum
  contentBottom :: jsnum
  isInBoundsTop :: "jsnum \<Rightarrow> bool"
  isInBoundsBottom :: "jsnum \<Rightarrow> bool"
  isInBoundsLeft :: "jsnum \<Rightarrow> bool"
  isInBoundsRight :: "jsnum \<Rightarrow> bool"

text \<open>Which of its two optional methods a custom renderer has.\<close>

record CustomRenderer =
  drawBubble :: bool
  drawHighlight :: bool

record BubbleChart = Chart +
  getBubbleData :: "BubbleDataSet ChartData"
  getCustomRenderer :: "CustomRenderer option"

text \<open>
  A paint: its colour and its stroke width. The fill shader that \<open>drawDataSet\<close> installs
  for the loop and puts back afterwards is left out.
\<close>

record Paint =
  color :: Color
  strokeWidth :: jsnum

text \<open>
  The renderer: its chart, the view port, the animator's \<open>getPhaseY()\<close>, its two paints,
  the inherited \<open>isInBoundsX\<close>, and \<open>(min, range)\<close> of \<open>mXBounds\<close> after
  \<open>mXBounds.set\<close> for a data set.
\<close>

record BubbleChartRenderer =
  mBubbleChart :: BubbleChart
  mViewPortHandler :: ViewPortHandler
  getPhaseY :: jsnum
  renderPaint :: Paint
  highlightPaint :: Paint
  isInBoundsX :: "Entry \<Rightarrow> BubbleDataSet \<Rightarrow> bool"
  mXBounds :: "BubbleDataSet \<Rightarrow> int \<times> int"

text \<open>What the renderer hands to the canvas or to the custom renderer.\<close>

datatype DrawOp =
    DrawCircle jsnum jsnum jsnum Paint
  | CustomDrawBubble Entry jsnum jsnum jsnum Paint
  | CustomDrawHighlight Highlight jsnum jsnum jsnum Paint

text \<open>
  The reference size, computed the same way in \<open>drawDataSet\<close> and in \<open>drawHighlighted\<close>:
  the probe \<open>[0, 0, 1, 0]\<close> goes through the transformer.
\<close>

definition referenceSize :: "BubbleChartRenderer \<Rightarrow> BubbleDataSet \<Rightarrow> jsnum" where
  "referenceSize this ds =
     (let trans = getTransformer (mBubbleChart this) (getAxisDependency ds);
          p0 = pointValuesToPixel trans (Num 0, Num 0);
          p1 = pointValuesToPixel trans (Num 1, Num 0);
          maxBubbleWidth = js_abs (js_sub (fst p1) (fst p0));
          maxBubbleHeight = js_abs (js_sub (contentBottom (mViewPortHandler this))
                                            (contentTop (mViewPortHandler this)))
      in js_min maxBubbleHeight maxBubbleWidth)"

definition shapeHalfOf :: "BubbleChartRenderer \<Rightarrow> BubbleDataSet \<Rightarrow> Entry \<Rightarrow> jsnum" where
  "shapeHalfOf this ds e =
     js_div (getShapeSize (props e (sizeProperty ds)) (getMaxSize ds) (referenceSize this ds)
               (isNormalizeSizeEnabled ds)) (Num 2)"

text \<open>
  The loop of \<open>drawDataSet\<close> over the indices \<open>j\<close>. An index without entry makes the read
  \<open>entry[yKey]\<close> raise.
\<close>

fun drawDataSetLoop :: "BubbleChartRenderer \<Rightarrow> BubbleDataSet \<Rightarrow> int list \<Rightarrow> error + DrawOp list" where
  "drawDataSetLoop this ds [] = Inr []"
| "drawDataSetLoop this ds (j # js) =
     (case getEntryForIndex ds j of
        None \<Rightarrow> Inl TypeError
      | Some e \<Rightarrow>
          (let vp = mViewPortHandler this;
               trans = getTransformer (mBubbleChart this) (getAxisDependency ds);
               xValue = getEntryXValue ds e (Some j);
               p = pointValuesToPixel trans (xValue, js_mul (props e (yProperty ds)) (getPhaseY this));
               shapeHalf = shapeHalfOf this ds e
           in if \<not> isInBoundsTop vp (js_add (snd p) shapeHalf)
                 \<or> \<not> isInBoundsBottom vp (js_sub (snd p) shapeHalf)
              then drawDataSetLoop this ds js
              else if \<not> isInBoundsLeft vp (js_add (fst p) shapeHalf)
              then drawDataSetLoop this ds js
              else if \<not> isInBoundsRight vp (js_sub (fst p) shapeHalf)
              then Inr []
              else
                (let paint = (renderPaint this)\<lparr> color := getColor ds xValue \<rparr>;
                     drawn = (case getCustomRenderer (mBubbleChart this) of
                                None \<Rightarrow> DrawCircle (fst p) (snd p) shapeHalf paint
                              | Some cr \<Rightarrow>
                                  if drawBubble cr
                                  then CustomDrawBubble e (fst p) (snd p) shapeHalf paint
                                  else DrawCircle (fst p) (snd p) shapeHalf paint)
                 in case drawDataSetLoop this ds js of
                      Inl err \<Rightarrow> Inl err
                    | Inr ops \<Rightarrow> Inr (drawn # ops))))"

definition drawDataSet :: "BubbleChartRenderer \<Rightarrow> BubbleDataSet \<Rightarrow> error + DrawOp list" where
  "drawDataSet this ds =
     (if getEntryCount ds < 1 then Inr []
      else (let (mn, rg) = mXBounds this ds in drawDataSetLoop this ds [mn..rg + mn]))"



section \<open>Notions used by the properties\<close>

text \<open>
  The rectangle that a range \<open>[start, end]\<close> of a stack gives at the cross-axis position
  \<open>x\<close>: both ends scaled by the phase, the cross-axis span half a bar width to either
  side of \<open>x\<close>. An inverted buffer stores the end as left and the start as right.
\<close>

definition stackBar :: "BarBuffer \<Rightarrow> jsnum \<Rightarrow> range \<Rightarrow> jsnum \<times> jsnum \<times> jsnum \<times> jsnum" where
  "stackBar b x r =
     (let topE = js_add x (js_div (mBarWidth b) (Num 2));
          bottomE = js_sub x (js_div (mBarWidth b) (Num 2))
      in if mInverted b
         then (js_mul (snd r) (phaseY b), topE, js_mul (fst r) (phaseY b), bottomE)
         else (js_mul (fst r) (phaseY b), topE, js_mul (snd r) (phaseY b), bottomE))"

text \<open>The start and the end of the main-axis span of a stored rectangle.\<close>

definition spanStart :: "BarBuffer \<Rightarrow> jsnum \<times> jsnum \<times> jsnum \<times> jsnum \<Rightarrow> jsnum" where
  "spanStart b bar = (case bar of (l, t, r, bo) \<Rightarrow> if mInverted b then r else l)"

definition spanEnd :: "BarBuffer \<Rightarrow> jsnum \<times> jsnum \<times> jsnum \<times> jsnum \<Rightarrow> jsnum" where
  "spanEnd b bar = (case bar of (l, t, r, bo) \<Rightarrow> if mInverted b then l else r)"

text \<open>The radius handed over with a drawing.\<close>

fun radius :: "DrawOp \<Rightarrow> jsnum" where
  "radius (DrawCircle x y r p) = r"
| "radius (CustomDrawBubble e x y r p) = r"
| "radius (CustomDrawHighlight h x y r p) = r"

text \<open>The centre handed over with a drawing.\<close>

fun centre :: "DrawOp \<Rightarrow> jsnum \<times> jsnum" where
  "centre (DrawCircle x y r p) = (x, y)"
| "centre (CustomDrawBubble e x y r p) = (x, y)"
| "centre (CustomDrawHighlight h x y r p) = (x, y)"

text \<open>
  The pixel position at which \<open>drawDataSet\<close> puts the entry \<open>e\<close> of index \<open>j\<close>, and the
  tests it makes on the circle there: \<open>bubbleInView\<close> holds when neither of the two
  \<open>continue\<close> is taken, \<open>bubblePastRight\<close> when the test before \<open>break\<close> fails.
\<close>

definition bubbleCentre :: "BubbleChartRenderer \<Rightarrow> BubbleDataSet \<Rightarrow> int \<Rightarrow> Entry \<Rightarrow> jsnum \<times> jsnum" where
  "bubbleCentre this ds j e =
     pointValuesToPixel (getTransformer (mBubbleChart this) (getAxisDependency ds))
       (getEntryXValue ds e (Some j), js_mul (props e (yProperty ds)) (getPhaseY this))"

definition bubbleInView :: "BubbleChartRenderer \<Rightarrow> BubbleDataSet \<Rightarrow> int \<Rightarrow> Entry \<Rightarrow> bool" where
  "bubbleInView this ds j e =
     (isInBoundsTop (mViewPortHandler this)
        (js_add (snd (bubbleCentre this ds j e)) (shapeHalfOf this ds e))
      \<and> isInBoundsBottom (mViewPortHandler this)
        (js_sub (snd (bubbleCentre this ds j e)) (shapeHalfOf this ds e))
      \<and> isInBoundsLeft (mViewPortHandler this)
        (js_add (fst (bubbleCentre this ds j e)) (shapeHalfOf this ds e)))"

definition bubblePastRight :: "BubbleChartRenderer \<Rightarrow> BubbleDataSet \<Rightarrow> int \<Rightarrow> Entry \<Rightarrow> bool" where
  "bubblePastRight this ds j e =
     (\<not> isInBoundsRight (mViewPortHandler this)
          (js_sub (fst (bubbleCentre this ds j e)) (shapeHalfOf this ds e)))"

text \<open>
  The indices among \<open>js\<close> whose entries are drawn: those in view, up to the first one
  that is in view and past the right bound.
\<close>

definition drawnIndices :: "BubbleChartRenderer \<Rightarrow> BubbleDataSet \<Rightarrow> int list \<Rightarrow> int list" where
  "drawnIndices this ds js =
     filter (\<lambda>j. case getEntryForIndex ds j of
                    None \<Rightarrow> False
                  | Some e \<Rightarrow> bubbleInView this ds j e)
       (takeWhile (\<lambda>j. case getEntryForIndex ds j of
                          None \<Rightarrow> True
                        | Some e \<Rightarrow> \<not> (bubbleInView this ds j e \<and> bubblePastRight this ds j e))
          js)"

text \<open>The index range of the loop of \<open>drawDataSet\<close>; empty for a data set without entries.\<close>

definition drawnRange :: "BubbleChartRenderer \<Rightarrow> BubbleDataSet \<Rightarrow> int list" where
  "drawnRange this ds =
     (if getEntryCount ds < 1 then []
      else [fst (mXBounds this ds)..snd (mXBounds this ds) + fst (mXBounds this ds)])"










section \<open>Example inputs\<close>

text \<open>A transformer that scales both axes by ten.\<close>

definition exTransformer :: Transformer where
  "exTransformer =
     \<lparr> getPixelForValues = (\<lambda>x y. (js_mul x (Num 10), js_mul y (Num 10))),
       pointValuesToPixel = (\<lambda>p. (js_mul (fst p) (Num 10), js_mul (snd p) (Num 10))) \<rparr>"

definition exProps :: "jsnum \<Rightarrow> jsnum \<Rightarrow> jsnum \<Rightarrow> string \<Rightarrow> jsnum" where
  "exProps a c s k = (if k = ''x'' then a else if k = ''y'' then c else s)"

text \<open>The stacked entry of the scenario: x = 0, components \<open>[3, -2]\<close>.\<close>

definition exStackedEntry :: Entry where
  "exStackedEntry =
     \<lparr> props = exProps (Num 0) (Num 1) (Num 0),
       yVals = Some [Num 3, Num (- 2)],
       ranges = [(Num 0, Num 3), (Num (- 2), Num 0)],
       negativeSum = Num 2 \<rparr>"

text \<open>An entry with the components \<open>[3, 2, -2]\<close>.\<close>

definition exStackedEntry3 :: Entry where
  "exStackedEntry3 =
     \<lparr> props = exProps (Num 0) (Num 3) (Num 0),
       yVals = Some [Num 3, Num 2, Num (- 2)],
       ranges = [(Num 0, Num 3), (Num 3, Num 5), (Num (- 2), Num 0)],
       negativeSum = Num 2 \<rparr>"

text \<open>An entry without stack, x = 1 and y = 5, and one with x = 1 and y = -5.\<close>

definition exPlainEntry :: Entry where
  "exPlainEntry =
     \<lparr> props = exProps (Num 1) (Num 5) (Num 0),
       yVals = None, ranges = [], negativeSum = Num 0 \<rparr>"

definition exNegativeEntry :: Entry where
  "exNegativeEntry =
     \<lparr> props = exProps (Num 1) (Num (- 5)) (Num 0),
       yVals = None, ranges = [], negativeSum = Num 0 \<rparr>"

text \<open>An entry with components but no ranges.\<close>

definition exMalformedEntry :: Entry where
  "exMalformedEntry =
     \<lparr> props = exProps (Num 2) (Num 0) (Num 0),
       yVals = Some [], ranges = [], negativeSum = Num 0 \<rparr>"

definition exBarSet :: BarDataSet where
  "exBarSet =
     \<lparr> xProperty = ''x'', yProperty = ''y'', getAxisDependency = LEFT,
       getEntryCount = 3,
       getEntryForIndex = (\<lambda>i. if i = 0 then Some exStackedEntry
                                else if i = 1 then Some exPlainEntry
                                else if i = 2 then Some exMalformedEntry else None),
       isHighlightEnabled = True,
       isStacked = True,
       getEntryForXValue = (\<lambda>x y. if x = Num 0 then Some exStackedEntry
                                    else if x = Num 1 then Some exPlainEntry
                                    else if x = Num 2 then Some exMalformedEntry else None) \<rparr>"

definition exCandidate :: Highlight where
  "exCandidate =
     \<lparr> hx = Num 0, hy = Num 1, xPx = Some (Num 0), yPx = Some (Num 10),
       dataSetIndex = 0, stackIndex = None, axis = Some LEFT,
       entry = None, entryIndex = None, drawX = None, drawY = None \<rparr>"

definition exBarChart :: "bool \<Rightarrow> BarChart" where
  "exBarChart fullBar =
     \<lparr> getTransformer = (\<lambda>a. exTransformer),
       mData = Some \<lparr> getDataSetByIndex = (\<lambda>i. if i = 0 then Some exBarSet else None) \<rparr>,
       mHighlightFullBarEnabled = fullBar \<rparr>"

definition exBarHighlighter :: "bool \<Rightarrow> BarHighlighter" where
  "exBarHighlighter fullBar =
     \<lparr> mChart = exBarChart fullBar,
       super_getHighlight = (\<lambda>x y. Some exCandidate),
       getValsForTouch = (\<lambda>x y. (js_div x (Num 10), js_div y (Num 10))) \<rparr>"

text \<open>Buffers with room for one and for three rectangles.\<close>

definition exBuffer :: "bool \<Rightarrow> bool \<Rightarrow> jsnum \<Rightarrow> nat \<Rightarrow> BarBuffer" where
  "exBuffer stacks inverted phase n =
     \<lparr> index = 0, buffer = replicate n (Num 0), phaseX = Num 1, phaseY = phase,
       mContainsStacks = stacks, mInverted = inverted, mBarWidth = Num 1 \<rparr>"

definition exOneEntrySet :: "Entry \<Rightarrow> DataSet" where
  "exOneEntrySet e =
     \<lparr> xProperty = ''x'', yProperty = ''y'', getAxisDependency = LEFT,
       getEntryCount = 1,
       getEntryForIndex = (\<lambda>i. if i = 0 then Some e else None),
       isHighlightEnabled = True \<rparr>"

text \<open>A bubble entry of size 4 at (1, 2), in a data set whose largest size is 16.\<close>

definition exBubbleEntry :: Entry where
  "exBubbleEntry =
     \<lparr> props = exProps (Num 1) (Num 2) (Num 4),
       yVals = None, ranges = [], negativeSum = Num 0 \<rparr>"

definition exBubbleSet :: "bool \<Rightarrow> BubbleDataSet" where
  "exBubbleSet norm_on =
     \<lparr> xProperty = ''x'', yProperty = ''y'', getAxisDependency = LEFT,
       getEntryCount = 1,
       getEntryForIndex = (\<lambda>i. if i = 0 then Some exBubbleEntry else None),
       isHighlightEnabled = True,
       sizeProperty = ''size'',
       isNormalizeSizeEnabled = norm_on,
       getMaxSize = Num 16,
       getEntryXValue = (\<lambda>e i. props e ''x''),
       getEntryAndIndexForXValue = (\<lambda>x y. (Some exBubbleEntry, Some 0)),
       getColor = (\<lambda>x. ''red''),
       getHighLightColor = ''blue'',
       getHighlightCircleWidth = Num 2 \<rparr>"

text \<open>
  A renderer whose content is 100 pixels high, so that with \<open>exTransformer\<close> the
  reference size is 10; nothing is out of bounds.
\<close>

definition exViewPort :: ViewPortHandler where
  "exViewPort =
     \<lparr> contentTop = Num 0, contentBottom = Num 100,
       isInBoundsTop = (\<lambda>y. True), isInBoundsBottom = (\<lambda>y. True),
       isInBoundsLeft = (\<lambda>x. True), isInBoundsRight = (\<lambda>x. True) \<rparr>"

definition exRenderer :: "bool \<Rightarrow> BubbleChartRenderer" where
  "exRenderer norm_on =
     \<lparr> mBubbleChart =
         \<lparr> getTransformer = (\<lambda>a. exTransformer),
           getBubbleData =
             \<lparr> getDataSetByIndex = (\<lambda>i. if i = 0 then Some (exBubbleSet norm_on) else None) \<rparr>,
           getCustomRenderer = None \<rparr>,
       mViewPortHandler = exViewPort,
       getPhaseY = Num 1,
       renderPaint = \<lparr> color = ''black'', strokeWidth = Num 1 \<rparr>,
       highlightPaint = \<lparr> color = ''black'', strokeWidth = Num (3 / 2) \<rparr>,
       isInBoundsX = (\<lambda>e ds. True),
       mXBounds = (\<lambda>ds. (0, int (getEntryCount ds) - 1)) \<rparr>"

text \<open>
  A second bubble entry, of size 16 at (2, 3), a third of size 4 at (3, 4), and the
  data set of the three entries.
\<close>

definition exBubbleEntry2 :: Entry where
  "exBubbleEntry2 =
     \<lparr> props = exProps (Num 2) (Num 3) (Num 16),
       yVals = None, ranges = [], negativeSum = Num 0 \<rparr>"

definition exBubbleEntry3 :: Entry where
  "exBubbleEntry3 =
     \<lparr> props = exProps (Num 3) (Num 4) (Num 4),
       yVals = None, ranges = [], negativeSum = Num 0 \<rparr>"

definition exBubbleSet3 :: BubbleDataSet where
  "exBubbleSet3 =
     (exBubbleSet True)
       \<lparr> getEntryCount := 3,
         getEntryForIndex := (\<lambda>i. if i = 0 then Some exBubbleEntry
                                  else if i = 1 then Some exBubbleEntry2
                                  else if i = 2 then Some exBubbleEntry3 else None) \<rparr>"

text \<open>
  The renderer with a view port that ends at the pixel 26 on the right: the circle of
  the third entry, from 27.5 to 32.5, is past it.
\<close>

definition exNarrowRenderer :: BubbleChartRenderer where
  "exNarrowRenderer =
     (exRenderer True)
       \<lparr> mViewPortHandler := exViewPort \<lparr> isInBoundsRight := (\<lambda>x. js_le x (Num 26)) \<rparr> \<rparr>"




section \<open>Properties of the stack index\<close>

lemma scanRanges_None: "scanRanges rs v i = None \<longleftrightarrow> (\<forall>r\<in>set rs. \<not> range_includes r v)"
  by (induction rs arbitrary: i) auto

lemma scanRanges_Some:
  "scanRanges rs v i = Some k \<Longrightarrow>
     i \<le> k \<and> k - i < length rs \<and> range_includes (rs ! (k - i)) v
     \<and> (\<forall>j<k - i. \<not> range_includes (rs ! j) v)"
proof (induction rs arbitrary: i)
  case Nil
  then show ?case by simp
next
  case (Cons r rs)
  show ?case
  proof (cases "range_includes r v")
    case True
    with Cons.prems show ?thesis by simp
  next
    case False
    with Cons.prems have s: "scanRanges rs v (Suc i) = Some k" by simp
    from Cons.IH [OF s] have ih: "Suc i \<le> k" "k - Suc i < length rs"
      "range_includes (rs ! (k - Suc i)) v" "\<forall>j<k - Suc i. \<not> range_includes (rs ! j) v"
      by simp_all
    from ih(1) have e: "k - i = Suc (k - Suc i)" by simp
    have "\<forall>j<k - i. \<not> range_includes ((r # rs) ! j) v"
    proof (intro allI impI)
      fix j assume "j < k - i"
      then show "\<not> range_includes ((r # rs) ! j) v"
        using False ih(4) e by (cases j) auto
    qed
    then show ?thesis using ih e by simp
  qed
qed

lemma scanRanges_first:
  "i < length rs \<Longrightarrow> range_includes (rs ! i) v \<Longrightarrow> \<forall>k<i. \<not> range_includes (rs ! k) v
   \<Longrightarrow> scanRanges rs v n = Some (n + i)"
proof (induction rs arbitrary: i n)
  case Nil
  then show ?case by simp
next
  case (Cons r rs)
  show ?case
  proof (cases i)
    case 0
    with Cons.prems show ?thesis by simp
  next
    case (Suc m)
    from Cons.prems(3) Suc have nr: "\<not> range_includes r v" by auto
    have "\<forall>k<m. \<not> range_includes (rs ! k) v"
      using Cons.prems(3) Suc by auto
    with Cons.IH [of m "Suc n"] Cons.prems Suc nr show ?thesis by simp
  qed
qed

text \<open>The index returned for ranges that are not empty is an index of the ranges.\<close>

lemma getClosestStackIndex_bound: "rs \<noteq> [] \<Longrightarrow> getClosestStackIndex rs v < length rs"
  by (auto simp: getClosestStackIndex_def Let_def split: option.splits dest: scanRanges_Some)

lemma js_le_refl_left: "js_le a b \<Longrightarrow> js_le a a"
  by (cases a; cases b) (auto simp: js_le_def js_seq_def)

lemma js_le_refl_right: "js_le a b \<Longrightarrow> js_le b b"
  by (cases a; cases b) (auto simp: js_le_def js_seq_def)

text \<open>
  C1. The claim: for ranges that are not empty, \<open>getClosestStackIndex\<close> returns the index
  of the first range whose closed interval contains the value; 4 in
  \<open>[[0,3],[3,5],[-2,0]]\<close> gives 1, and in \<open>[[0,3],[-2,0]]\<close> the value 2 gives 0 and the
  value -1 gives 1. The code tests \<open>ranges[i].includes(value)\<close>, which holds only for the
  two bounds of a range, so a value inside a range falls through to the last lines of
  the function: the three calls return 2, 1 and 0.
\<close>

theorem getClosestStackIndex_interior_values:
  "getClosestStackIndex [(Num 0, Num 3), (Num 3, Num 5), (Num (- 2), Num 0)] (Num 4) = 2
   \<and> getClosestStackIndex [(Num 0, Num 3), (Num (- 2), Num 0)] (Num 2) = 1
   \<and> getClosestStackIndex [(Num 0, Num 3), (Num (- 2), Num 0)] (Num (- 1)) = 0"
  by (simp add: getClosestStackIndex_def range_includes_def js_gt_def)

text \<open>
  C7. A value that lies on the boundary shared by two ranges, the range at \<open>i\<close> and the
  later range at \<open>j\<close>, resolves to the earlier one, \<open>i\<close>. The two ranges are the ones
  that meet at the value: no range before them has it as a bound.
\<close>

theorem getClosestStackIndex_shared_boundary:
  assumes "i < j" and "j < length rs"
    and "range_includes (rs ! i) v" and "range_includes (rs ! j) v"
    and "\<forall>k<i. \<not> range_includes (rs ! k) v"
  shows "getClosestStackIndex rs v = i"
proof -
  have "i < length rs" using assms(1,2) by simp
  from scanRanges_first [OF this assms(3,5), of 0] show ?thesis
    using assms(2) by (auto simp: getClosestStackIndex_def)
qed

theorem getClosestStackIndex_shared_boundary_witness:
  "getClosestStackIndex [(Num 0, Num 3), (Num 3, Num 5), (Num (- 2), Num 0)] (Num 0) = 0
   \<and> getClosestStackIndex [(Num 0, Num 3), (Num 3, Num 5), (Num (- 2), Num 0)] (Num 3) = 0
   \<and> getClosestStackIndex [(Num 0, Num 3), (Num 3, Num 5), (Num 5, Num 6)] (Num 5) = 1"
proof -
  let ?qs = "[(Num 0, Num 3), (Num 3, Num 5), (Num 5, Num 6)]"
  have c: "(1::nat) < 2" "(2::nat) < length ?qs"
    "range_includes (?qs ! 1) (Num 5)" "range_includes (?qs ! 2) (Num 5)"
    "\<forall>k<(1::nat). \<not> range_includes (?qs ! k) (Num 5)"
    by (simp_all add: range_includes_def)
  let ?rs = "[(Num 0, Num 3), (Num 3, Num 5), (Num (- 2), Num 0)]"
  have a: "(0::nat) < 2" "(2::nat) < length ?rs"
    "range_includes (?rs ! 0) (Num 0)" "range_includes (?rs ! 2) (Num 0)"
    "\<forall>k<(0::nat). \<not> range_includes (?rs ! k) (Num 0)"
    by (simp_all add: range_includes_def)
  have b: "(0::nat) < 1" "(1::nat) < length ?rs"
    "range_includes (?rs ! 0) (Num 3)" "range_includes (?rs ! 1) (Num 3)"
    "\<forall>k<(0::nat). \<not> range_includes (?rs ! k) (Num 3)"
    by (simp_all add: range_includes_def)
  from getClosestStackIndex_shared_boundary [OF a]
       getClosestStackIndex_shared_boundary [OF b]
       getClosestStackIndex_shared_boundary [OF c]
  show ?thesis by simp
qed

text \<open>
  C8. For no ranges the result is 0. For ranges that are intervals (start at most end,
  as the ranges derived from an entry are) and a value outside every interval, the
  result is the last index when the value exceeds the end of the last range, and 0
  otherwise.
\<close>

theorem getClosestStackIndex_outside:
  "getClosestStackIndex [] v = 0
   \<and> (rs \<noteq> [] \<and> (\<forall>r\<in>set rs. js_le (fst r) (snd r))
        \<and> (\<forall>r\<in>set rs. \<not> (js_le (fst r) v \<and> js_le v (snd r)))
      \<longrightarrow> getClosestStackIndex rs v
            = (if js_gt v (snd (last rs)) then length rs - 1 else 0))"
proof (intro conjI impI)
  show "getClosestStackIndex [] v = 0" by (simp add: getClosestStackIndex_def)
next
  assume h: "rs \<noteq> [] \<and> (\<forall>r\<in>set rs. js_le (fst r) (snd r))
        \<and> (\<forall>r\<in>set rs. \<not> (js_le (fst r) v \<and> js_le v (snd r)))"
  have "\<not> range_includes r v" if "r \<in> set rs" for r
  proof
    assume inc: "range_includes r v"
    from h that have wf: "js_le (fst r) (snd r)" by blast
    from h that have out: "\<not> (js_le (fst r) v \<and> js_le v (snd r))" by blast
    from inc have "v = fst r \<or> v = snd r" by (auto simp: range_includes_def)
    then show False
    proof
      assume "v = fst r"
      with wf out js_le_refl_left [OF wf] show False by simp
    next
      assume "v = snd r"
      with wf out js_le_refl_right [OF wf] show False by simp
    qed
  qed
  then have "scanRanges rs v 0 = None" by (simp add: scanRanges_None)
  then show "getClosestStackIndex rs v = (if js_gt v (snd (last rs)) then length rs - 1 else 0)"
    using h by (simp add: getClosestStackIndex_def last_conv_nth)
qed

theorem getClosestStackIndex_outside_witness:
  "getClosestStackIndex [(Num 0, Num 3), (Num 3, Num 5), (Num (- 2), Num 0)] (Num 10) = 2
   \<and> getClosestStackIndex [(Num 0, Num 3), (Num 3, Num 5), (Num (- 2), Num 0)] (Num (- 5)) = 0"
proof -
  let ?rs = "[(Num 0, Num 3), (Num 3, Num 5), (Num (- 2), Num 0)]"
  have a: "?rs \<noteq> [] \<and> (\<forall>r\<in>set ?rs. js_le (fst r) (snd r))
        \<and> (\<forall>r\<in>set ?rs. \<not> (js_le (fst r) (Num 10) \<and> js_le (Num 10) (snd r)))"
    by (simp add: js_le_def js_seq_def)
  have b: "?rs \<noteq> [] \<and> (\<forall>r\<in>set ?rs. js_le (fst r) (snd r))
        \<and> (\<forall>r\<in>set ?rs. \<not> (js_le (fst r) (Num (- 5)) \<and> js_le (Num (- 5)) (snd r)))"
    by (simp add: js_le_def js_seq_def)
  from getClosestStackIndex_outside [of "Num 10" ?rs] a
       getClosestStackIndex_outside [of "Num (- 5)" ?rs] b
  show ?thesis by (simp add: js_gt_def)
qed

section \<open>Facts for evaluating the definitions\<close>

lemmas js_cmp_defs = js_ge_def js_le_def js_gt_def js_seq_def

lemmas bubble_defs = shapeHalfOf_def getShapeSize_def referenceSize_def js_sub_def js_min_def
  js_seq_def real_sqrt_divide Let_def

lemmas feed_defs = feed_def feedStep_def feedEntry_def feedPlain_def addBar_def reset_def
  Let_def js_sub_def numeral_eq_Suc

section \<open>Properties of the stacked highlight\<close>

text \<open>
  C2. When the entry for \<open>(xVal, yVal)\<close> exists, has stack components and has ranges,
  \<open>getStackedHighlight\<close> returns a highlight built from scratch (the fields it does not
  set are absent, whatever the candidate holds): \<open>x\<close> and \<open>y\<close> are the entry's values
  under the data set's \<open>xProperty\<close> and \<open>yProperty\<close>, the pixel coordinates are those of
  the end of the selected range under the transformer of the data set's axis, and the
  data-set index and the axis are the candidate's. The selected index is an index of
  the ranges, so the read of the range does not fail.
\<close>

theorem getStackedHighlight_stacked:
  assumes "getEntryForXValue dset xVal yVal = Some e"
    and "yVals e = Some vals"
    and "ranges e \<noteq> []"
  shows "getClosestStackIndex (ranges e) yVal < length (ranges e)
    \<and> getStackedHighlight this high dset xVal yVal =
      Inr (Some \<lparr> hx = props e (xProperty dset),
                   hy = props e (yProperty dset),
                   xPx = Some (fst (getPixelForValues
                                 (getTransformer (mChart this) (getAxisDependency dset))
                                 (hx high)
                                 (snd (ranges e ! getClosestStackIndex (ranges e) yVal)))),
                   yPx = Some (snd (getPixelForValues
                                 (getTransformer (mChart this) (getAxisDependency dset))
                                 (hx high)
                                 (snd (ranges e ! getClosestStackIndex (ranges e) yVal)))),
                   dataSetIndex = dataSetIndex high,
                   stackIndex = Some (getClosestStackIndex (ranges e) yVal),
                   axis = axis high,
                   entry = None, entryIndex = None, drawX = None, drawY = None \<rparr>)"
  using assms getClosestStackIndex_bound [OF assms(3), of yVal]
  by (simp add: getStackedHighlight_def Let_def)

theorem getStackedHighlight_stacked_witness:
  "getStackedHighlight (exBarHighlighter False) exCandidate exBarSet (Num 0) (Num 3)
   = Inr (Some \<lparr> hx = Num 0, hy = Num 1, xPx = Some (Num 0), yPx = Some (Num 30),
                  dataSetIndex = 0, stackIndex = Some 0, axis = Some LEFT,
                  entry = None, entryIndex = None, drawX = None, drawY = None \<rparr>)"
proof -
  have a: "getEntryForXValue exBarSet (Num 0) (Num 3) = Some exStackedEntry"
    by (simp add: exBarSet_def)
  have b: "yVals exStackedEntry = Some [Num 3, Num (- 2)]"
    by (simp add: exStackedEntry_def)
  have c: "ranges exStackedEntry \<noteq> []"
    by (simp add: exStackedEntry_def)
  from getStackedHighlight_stacked [OF a b c, of "exBarHighlighter False" exCandidate]
  show ?thesis
    by (simp add: getClosestStackIndex_def range_includes_def exBarHighlighter_def exBarChart_def exCandidate_def exBarSet_def
          exStackedEntry_def exTransformer_def exProps_def)
qed

text \<open>
  C9. \<open>getStackedHighlight\<close> returns no highlight in exactly two cases: there is no entry
  for \<open>(xVal, yVal)\<close>, or the entry has stack components and no ranges. An entry without
  components gives the candidate back, an entry with components and ranges gives a
  highlight with a stack index, and no call raises.
\<close>

theorem getStackedHighlight_results:
  "(getStackedHighlight this high dset xVal yVal = Inr None
      \<longleftrightarrow> (getEntryForXValue dset xVal yVal = None
           \<or> (\<exists>e. getEntryForXValue dset xVal yVal = Some e
                    \<and> yVals e \<noteq> None \<and> ranges e = [])))
   \<and> (\<forall>e. getEntryForXValue dset xVal yVal = Some e \<and> yVals e = None
          \<longrightarrow> getStackedHighlight this high dset xVal yVal = Inr (Some high))
   \<and> (\<forall>e. getEntryForXValue dset xVal yVal = Some e \<and> yVals e \<noteq> None \<and> ranges e \<noteq> []
          \<longrightarrow> (\<exists>h. getStackedHighlight this high dset xVal yVal = Inr (Some h)
                   \<and> stackIndex h = Some (getClosestStackIndex (ranges e) yVal)))
   \<and> (\<forall>err. getStackedHighlight this high dset xVal yVal \<noteq> Inl err)"
proof -
  have b: "getClosestStackIndex (ranges e) yVal < length (ranges e)" if "ranges e \<noteq> []" for e
    using that by (rule getClosestStackIndex_bound)
  show ?thesis
    by (auto simp: getStackedHighlight_def Let_def b split: option.splits)
qed

theorem getStackedHighlight_results_witness:
  "getStackedHighlight (exBarHighlighter False) exCandidate exBarSet (Num 7) (Num 3) = Inr None
   \<and> getStackedHighlight (exBarHighlighter False) exCandidate exBarSet (Num 2) (Num 3) = Inr None
   \<and> getStackedHighlight (exBarHighlighter False) exCandidate exBarSet (Num 1) (Num 3)
       = Inr (Some exCandidate)
   \<and> getStackedHighlight (exBarHighlighter False) exCandidate exBarSet (Num 0) (Num 3)
       \<noteq> Inr None
   \<and> getStackedHighlight (exBarHighlighter False) exCandidate exBarSet (Num 0) (Num 3)
       \<noteq> Inl TypeError"
proof -
  have none: "getEntryForXValue exBarSet (Num 7) (Num 3) = None"
    by (simp add: exBarSet_def)
  have malformed: "getEntryForXValue exBarSet (Num 2) (Num 3) = Some exMalformedEntry"
    "yVals exMalformedEntry \<noteq> None" "ranges exMalformedEntry = []"
    by (simp_all add: exBarSet_def exMalformedEntry_def)
  have plain: "getEntryForXValue exBarSet (Num 1) (Num 3) = Some exPlainEntry"
    "yVals exPlainEntry = None"
    by (simp_all add: exBarSet_def exPlainEntry_def)
  have stacked: "getEntryForXValue exBarSet (Num 0) (Num 3) = Some exStackedEntry"
    "yVals exStackedEntry \<noteq> None" "ranges exStackedEntry \<noteq> []"
    by (simp_all add: exBarSet_def exStackedEntry_def)
  from getStackedHighlight_results [of "exBarHighlighter False" exCandidate exBarSet "Num 7" "Num 3"]
    none
  have 1: "getStackedHighlight (exBarHighlighter False) exCandidate exBarSet (Num 7) (Num 3)
             = Inr None"
    by simp
  from getStackedHighlight_results [of "exBarHighlighter False" exCandidate exBarSet "Num 2" "Num 3"]
    malformed
  have 2: "getStackedHighlight (exBarHighlighter False) exCandidate exBarSet (Num 2) (Num 3)
             = Inr None"
    by simp
  from getStackedHighlight_results [of "exBarHighlighter False" exCandidate exBarSet "Num 1" "Num 3"]
    plain
  have 3: "getStackedHighlight (exBarHighlighter False) exCandidate exBarSet (Num 1) (Num 3)
             = Inr (Some exCandidate)"
    by simp
  from getStackedHighlight_results [of "exBarHighlighter False" exCandidate exBarSet "Num 0" "Num 3"]
    stacked
  have 4: "getStackedHighlight (exBarHighlighter False) exCandidate exBarSet (Num 0) (Num 3)
             \<noteq> Inr None"
    "getStackedHighlight (exBarHighlighter False) exCandidate exBarSet (Num 0) (Num 3)
             \<noteq> Inl TypeError"
    by simp_all
  from 1 2 3 4 show ?thesis by simp
qed

section \<open>Properties of the bubble renderer\<close>

lemma js_mul_one: "js_mul a (Num 1) = a"
  by (cases a) (simp_all add: inf_of_sign_def)

lemma js_mul_commute: "js_mul a c = js_mul c a"
  by (cases a; cases c) (simp_all add: mult.commute)

text \<open>
  C10. With size normalization on and a largest size of 0, the factor is 1 and no
  division takes place: the shape size is the reference size itself, and it is finite
  when the reference size is.
\<close>

theorem getShapeSize_zero_max:
  "getShapeSize entrySize (Num 0) reference True = reference
   \<and> (isFinite reference \<longrightarrow> isFinite (getShapeSize entrySize (Num 0) reference True))"
  by (simp add: getShapeSize_def js_seq_def js_mul_one)

theorem getShapeSize_zero_max_witness:
  "isFinite (Num 10) \<and> getShapeSize (Num 4) (Num 0) (Num 10) True = Num 10
   \<and> isFinite (getShapeSize (Num 4) (Num 0) (Num 10) True)"
  using getShapeSize_zero_max [of "Num 4" "Num 10"] by simp

text \<open>
  C3, as the claim states it, fails: the circle is drawn with half the shape size. For
  the entry of size 4 in a data set of largest size 16, at the reference size 10, the
  drawn radius is 5/2 and not \<open>10 * sqrt (4 / 16) = 5\<close>.
\<close>

theorem drawn_radius_counterexample:
  "drawDataSet (exRenderer True) (exBubbleSet True)
     = Inr [DrawCircle (Num 10) (Num 20) (Num (5 / 2)) \<lparr> color = ''red'', strokeWidth = Num 1 \<rparr>]
   \<and> props exBubbleEntry (sizeProperty (exBubbleSet True)) = Num 4
   \<and> getMaxSize (exBubbleSet True) = Num 16
   \<and> referenceSize (exRenderer True) (exBubbleSet True) = Num 10
   \<and> js_mul (Num 10) (js_sqrt (js_div (Num 4) (Num 16))) = Num 5
   \<and> radius (DrawCircle (Num 10) (Num 20) (Num (5 / 2)) \<lparr> color = ''red'', strokeWidth = Num 1 \<rparr>)
       \<noteq> js_mul (Num 10) (js_sqrt (js_div (Num 4) (Num 16)))"
  by (simp add: drawDataSet_def bubble_defs exRenderer_def exBubbleSet_def exBubbleEntry_def
          exViewPort_def exTransformer_def exProps_def)

lemma drawDataSetLoop_drawn:
  "drawDataSetLoop this ds js = Inr ops \<Longrightarrow>
   list_all2 (\<lambda>j op. \<exists>e. getEntryForIndex ds j = Some e
                        \<and> centre op = bubbleCentre this ds j e
                        \<and> radius op = shapeHalfOf this ds e)
     (drawnIndices this ds js) ops"
proof (induction js arbitrary: ops)
  case Nil
  then show ?case by (simp add: drawnIndices_def)
next
  case (Cons j js)
  from Cons.prems obtain e where e: "getEntryForIndex ds j = Some e"
    by (auto split: option.splits)
  show ?case
  proof (cases "bubbleInView this ds j e")
    case False
    with Cons.prems e have "drawDataSetLoop this ds js = Inr ops"
      by (auto simp: bubbleInView_def bubbleCentre_def Let_def split: if_splits)
    from Cons.IH [OF this] False e show ?thesis
      by (simp add: drawnIndices_def)
  next
    case True
    show ?thesis
    proof (cases "bubblePastRight this ds j e")
      case True
      with \<open>bubbleInView this ds j e\<close> Cons.prems e have "ops = []"
        by (auto simp: bubbleInView_def bubblePastRight_def bubbleCentre_def Let_def
                 split: if_splits)
      with True \<open>bubbleInView this ds j e\<close> e show ?thesis
        by (simp add: drawnIndices_def)
    next
      case False
      with \<open>bubbleInView this ds j e\<close> Cons.prems e
      obtain d ops' where d: "drawDataSetLoop this ds js = Inr ops'" "ops = d # ops'"
        "centre d = bubbleCentre this ds j e" "radius d = shapeHalfOf this ds e"
        by (auto simp: bubbleInView_def bubblePastRight_def bubbleCentre_def Let_def
                 split: if_splits sum.splits option.splits)
      from Cons.IH [OF d(1)] d(2-4) False \<open>bubbleInView this ds j e\<close> e show ?thesis
        by (simp add: drawnIndices_def)
    qed
  qed
qed

lemma drawDataSet_drawn:
  assumes "drawDataSet this ds = Inr ops"
  shows "list_all2 (\<lambda>j op. \<exists>e. getEntryForIndex ds j = Some e
                        \<and> centre op = bubbleCentre this ds j e
                        \<and> radius op = shapeHalfOf this ds e)
           (drawnIndices this ds (drawnRange this ds)) ops"
proof (cases "getEntryCount ds < 1")
  case True
  with assms show ?thesis by (simp add: drawDataSet_def drawnRange_def drawnIndices_def)
next
  case False
  with assms have "drawDataSetLoop this ds (drawnRange this ds) = Inr ops"
    by (simp add: drawDataSet_def drawnRange_def split_beta)
  from drawDataSetLoop_drawn [OF this] show ?thesis .
qed

text \<open>
  C3, amended. The shape size is \<open>reference * sqrt (entrySize / maxSize)\<close> when size
  normalization is on and the largest size is not 0 (the reference itself when it is 0),
  and \<open>entrySize * reference\<close> when it is off. \<open>drawDataSet\<close> draws one circle for each
  index of its range whose entry is in view, up to the first one past the right
  bound, in the order of the indices; the circle drawn for an entry (or handed to the
  custom renderer) is centred at the pixel position of that entry and its radius is
  half the shape size of that entry.
\<close>

theorem shape_size_and_drawn_radius:
  "(\<not> js_seq maxSize (Num 0)
      \<longrightarrow> getShapeSize entrySize maxSize reference True
            = js_mul reference (js_sqrt (js_div entrySize maxSize)))
   \<and> getShapeSize entrySize (Num 0) reference True = reference
   \<and> getShapeSize entrySize maxSize reference False = js_mul entrySize reference
   \<and> (drawDataSet this ds = Inr ops
      \<longrightarrow> list_all2
            (\<lambda>j op. \<exists>e. getEntryForIndex ds j = Some e
                \<and> centre op = bubbleCentre this ds j e
                \<and> radius op = js_div (getShapeSize (props e (sizeProperty ds)) (getMaxSize ds)
                                        (referenceSize this ds) (isNormalizeSizeEnabled ds))
                                     (Num 2))
            (drawnIndices this ds (drawnRange this ds)) ops)"
proof (intro conjI impI)
  assume "\<not> js_seq maxSize (Num 0)"
  then show "getShapeSize entrySize maxSize reference True
               = js_mul reference (js_sqrt (js_div entrySize maxSize))"
    by (simp add: getShapeSize_def)
next
  show "getShapeSize entrySize (Num 0) reference True = reference"
    by (simp add: getShapeSize_def js_seq_def js_mul_one)
next
  show "getShapeSize entrySize maxSize reference False = js_mul entrySize reference"
    by (simp add: getShapeSize_def js_mul_commute)
next
  assume "drawDataSet this ds = Inr ops"
  from drawDataSet_drawn [OF this]
  show "list_all2
            (\<lambda>j op. \<exists>e. getEntryForIndex ds j = Some e
                \<and> centre op = bubbleCentre this ds j e
                \<and> radius op = js_div (getShapeSize (props e (sizeProperty ds)) (getMaxSize ds)
                                        (referenceSize this ds) (isNormalizeSizeEnabled ds))
                                     (Num 2))
            (drawnIndices this ds (drawnRange this ds)) ops"
    by (simp add: shapeHalfOf_def)
qed

theorem shape_size_and_drawn_radius_witness:
  "getShapeSize (Num 4) (Num 16) (Num 10) True = Num 5
   \<and> getShapeSize (Num 4) (Num 16) (Num 10) False = Num 40
   \<and> drawnIndices exNarrowRenderer exBubbleSet3 (drawnRange exNarrowRenderer exBubbleSet3)
       = [0, 1]
   \<and> drawDataSet exNarrowRenderer exBubbleSet3
       = Inr [DrawCircle (Num 10) (Num 20) (Num (5 / 2)) \<lparr> color = ''red'', strokeWidth = Num 1 \<rparr>,
              DrawCircle (Num 20) (Num 30) (Num 5) \<lparr> color = ''red'', strokeWidth = Num 1 \<rparr>]
   \<and> drawDataSet (exRenderer True) exBubbleSet3
       = Inr [DrawCircle (Num 10) (Num 20) (Num (5 / 2)) \<lparr> color = ''red'', strokeWidth = Num 1 \<rparr>,
              DrawCircle (Num 20) (Num 30) (Num 5) \<lparr> color = ''red'', strokeWidth = Num 1 \<rparr>,
              DrawCircle (Num 30) (Num 40) (Num (5 / 2)) \<lparr> color = ''red'', strokeWidth = Num 1 \<rparr>]
   \<and> drawDataSet (exRenderer False) (exBubbleSet False)
       = Inr [DrawCircle (Num 10) (Num 20) (Num 20) \<lparr> color = ''red'', strokeWidth = Num 1 \<rparr>]"
proof -
  let ?ops = "[DrawCircle (Num 10) (Num 20) (Num (5 / 2)) \<lparr> color = ''red'', strokeWidth = Num 1 \<rparr>,
               DrawCircle (Num 20) (Num 30) (Num 5) \<lparr> color = ''red'', strokeWidth = Num 1 \<rparr>]"
  have d: "drawDataSet exNarrowRenderer exBubbleSet3 = Inr ?ops"
    by (simp add: drawDataSet_def bubble_defs js_le_def js_seq_def upto.simps
          exNarrowRenderer_def exBubbleSet3_def exBubbleEntry2_def exBubbleEntry3_def
          exRenderer_def exBubbleSet_def exBubbleEntry_def
          exViewPort_def exTransformer_def exProps_def)
  have w: "drawDataSet (exRenderer True) exBubbleSet3
       = Inr [DrawCircle (Num 10) (Num 20) (Num (5 / 2)) \<lparr> color = ''red'', strokeWidth = Num 1 \<rparr>,
              DrawCircle (Num 20) (Num 30) (Num 5) \<lparr> color = ''red'', strokeWidth = Num 1 \<rparr>,
              DrawCircle (Num 30) (Num 40) (Num (5 / 2)) \<lparr> color = ''red'', strokeWidth = Num 1 \<rparr>]"
    by (simp add: drawDataSet_def bubble_defs upto.simps
          exBubbleSet3_def exBubbleEntry2_def exBubbleEntry3_def
          exRenderer_def exBubbleSet_def exBubbleEntry_def
          exViewPort_def exTransformer_def exProps_def)
  have u: "drawDataSet (exRenderer False) (exBubbleSet False)
       = Inr [DrawCircle (Num 10) (Num 20) (Num 20) \<lparr> color = ''red'', strokeWidth = Num 1 \<rparr>]"
    by (simp add: drawDataSet_def bubble_defs exRenderer_def exBubbleSet_def exBubbleEntry_def
          exViewPort_def exTransformer_def exProps_def)
  have idx: "drawnIndices exNarrowRenderer exBubbleSet3 (drawnRange exNarrowRenderer exBubbleSet3)
       = [0, 1]"
    by (simp add: drawnIndices_def drawnRange_def bubbleInView_def bubblePastRight_def
          bubbleCentre_def bubble_defs js_le_def upto.simps
          exNarrowRenderer_def exBubbleSet3_def exBubbleEntry2_def exBubbleEntry3_def
          exRenderer_def exBubbleSet_def exBubbleEntry_def
          exViewPort_def exTransformer_def exProps_def)
  have n: "\<not> js_seq (Num 16) (Num 0)" by (simp add: js_seq_def)
  from shape_size_and_drawn_radius [of "Num 16" "Num 4" "Num 10" exNarrowRenderer exBubbleSet3 ?ops]
    d n
  have "getShapeSize (Num 4) (Num 16) (Num 10) True = Num 5"
    "getShapeSize (Num 4) (Num 16) (Num 10) False = Num 40"
    by (simp_all add: real_sqrt_divide)
  with d w u idx show ?thesis by simp
qed

section \<open>What happens to a highlight\<close>










section \<open>Properties of the horizontal bar buffer\<close>

lemma addBar_fields [simp]:
  "index (addBar b l t r bo) = index b + 4"
  "length (buffer (addBar b l t r bo)) = length (buffer b)"
  "phaseY (addBar b l t r bo) = phaseY b"
  "phaseX (addBar b l t r bo) = phaseX b"
  "mInverted (addBar b l t r bo) = mInverted b"
  "mContainsStacks (addBar b l t r bo) = mContainsStacks b"
  "mBarWidth (addBar b l t r bo) = mBarWidth b"
  by (simp_all add: addBar_def)

lemma addBar_below: "j < index b \<Longrightarrow> buffer (addBar b l t r bo) ! j = buffer b ! j"
  by (simp add: addBar_def)

lemma addBar_barAt:
  "index b + 4 \<le> length (buffer b) \<Longrightarrow> barAt (buffer (addBar b l t r bo)) (index b) = (l, t, r, bo)"
  by (simp add: addBar_def barAt_def nth_list_update)

lemma fillStack_fields [simp]:
  "index (fillStack b x p n vals) = index b + 4 * length vals"
  "length (buffer (fillStack b x p n vals)) = length (buffer b)"
  "phaseY (fillStack b x p n vals) = phaseY b"
  "mInverted (fillStack b x p n vals) = mInverted b"
  "mBarWidth (fillStack b x p n vals) = mBarWidth b"
  by (induction vals arbitrary: b p n; simp add: Let_def)+

lemma fillStack_below:
  "j < index b \<Longrightarrow> buffer (fillStack b x p n vals) ! j = buffer b ! j"
  by (induction vals arbitrary: b p n) (simp_all add: Let_def addBar_below)

lemma barAt_below:
  "i + 4 \<le> index b \<Longrightarrow> barAt (buffer (fillStack b x p n vals)) i = barAt (buffer b) i"
  by (simp add: barAt_def fillStack_below)

lemma length_stackRanges [simp]: "length (stackRanges p n vals) = length vals"
  by (induction vals arbitrary: p n) simp_all

lemma stackBar_addBar [simp]: "stackBar (addBar b l t r bo) x rg = stackBar b x rg"
  by (simp add: stackBar_def Let_def)

lemma js_ge_Num [simp]: "js_ge (Num a) (Num c) = (c \<le> a)"
  by (auto simp: js_ge_def js_le_def js_seq_def)

lemma js_le_Num [simp]: "js_le (Num a) (Num c) = (a \<le> c)"
  by (auto simp: js_ge_def js_le_def js_seq_def)

lemma js_gt_Num [simp]: "js_gt (Num a) (Num c) = (c < a)"
  by (auto simp: js_gt_def)

lemma isFinite_Num: "isFinite a \<Longrightarrow> \<exists>r. a = Num r"
  by (cases a) simp_all

lemma fillStack_bars:
  "isFinite p \<Longrightarrow> isFinite n \<Longrightarrow> list_all isFinite vals
   \<Longrightarrow> index b + 4 * length vals \<le> length (buffer b) \<Longrightarrow> k < length vals
   \<Longrightarrow> barAt (buffer (fillStack b x p n vals)) (index b + 4 * k)
       = stackBar b x (stackRanges p n vals ! k)"
proof (induction vals arbitrary: b p n k)
  case Nil
  then show ?case by simp
next
  case (Cons v vals)
  from Cons.prems obtain pr nr vr where [simp]: "p = Num pr" "n = Num nr" "v = Num vr"
    by (auto dest!: isFinite_Num)
  show ?case
  proof (cases k)
    case 0
    have room: "index b + 4 \<le> length (buffer b)" using Cons.prems(4) by simp
    show ?thesis
      using 0 room
      by (auto simp: Let_def barAt_below addBar_barAt stackBar_def)
  next
    case (Suc m)
    have m: "m < length vals" using Suc Cons.prems(5) by simp
    have fin: "list_all isFinite vals" using Cons.prems(3) by simp
    show ?thesis
    proof (cases "0 \<le> vr")
      case True
      let ?b' = "addBar b (js_mul (if mInverted b then Num (pr + vr) else Num pr) (phaseY b))
                   (js_add x (js_div (mBarWidth b) (Num 2)))
                   (js_mul (if mInverted b then Num pr else Num (pr + vr)) (phaseY b))
                   (js_sub x (js_div (mBarWidth b) (Num 2)))"
      have room: "index ?b' + 4 * length vals \<le> length (buffer ?b')"
        using Cons.prems(4) by simp
      from Cons.IH [of "Num (pr + vr)" "Num nr" ?b' m, OF _ _ fin room m]
      show ?thesis using True Suc
        by (auto simp: Let_def add.assoc split: if_splits)
    next
      case False
      let ?b' = "addBar b (js_mul (if mInverted b then Num (nr + \<bar>vr\<bar>) else Num nr) (phaseY b))
                   (js_add x (js_div (mBarWidth b) (Num 2)))
                   (js_mul (if mInverted b then Num nr else Num (nr + \<bar>vr\<bar>)) (phaseY b))
                   (js_sub x (js_div (mBarWidth b) (Num 2)))"
      have room: "index ?b' + 4 * length vals \<le> length (buffer ?b')"
        using Cons.prems(4) by simp
      from Cons.IH [of "Num pr" "Num (nr + \<bar>vr\<bar>)" ?b' m, OF _ _ fin room m]
      show ?thesis using False Suc
        by (auto simp: Let_def add.assoc split: if_splits)
    qed
  qed
qed

lemma stackRanges_contiguous:
  "Suc k < length vals \<Longrightarrow> js_ge (vals ! k) (Num 0) = js_ge (vals ! Suc k) (Num 0)
   \<Longrightarrow> snd (stackRanges p n vals ! k) = fst (stackRanges p n vals ! Suc k)"
proof (induction vals arbitrary: p n k)
  case Nil
  then show ?case by simp
next
  case (Cons v vals)
  show ?case
  proof (cases k)
    case 0
    with Cons.prems obtain w ws where "vals = w # ws" by (cases vals) auto
    with 0 Cons.prems show ?thesis by auto
  next
    case (Suc m)
    with Cons.prems Cons.IH [of m] show ?thesis by auto
  qed
qed


text \<open>
  The rectangle of an entry that is not stacked, for a finite value \<open>a\<close>. In a buffer
  that is not inverted, and in an inverted one for a value that is not negative, the
  edge away from zero is \<open>a\<close> times the phase and the other edge is 0. In an inverted
  buffer a negative value keeps its far edge \<open>a\<close> as it is, and the phase multiplies
  the edge at zero.
\<close>

lemma feedPlain_bar:
  assumes "index b + 4 \<le> length (buffer b)"
  shows "barAt (buffer (feedPlain b x (Num a))) (index b)
    = (let topE = js_add x (js_div (mBarWidth b) (Num 2));
           bottomE = js_sub x (js_div (mBarWidth b) (Num 2))
       in if mInverted b
          then (if 0 \<le> a then (js_mul (Num a) (phaseY b), topE, Num 0, bottomE)
                else (js_mul (Num 0) (phaseY b), topE, Num a, bottomE))
          else (if 0 < a then (Num 0, topE, js_mul (Num a) (phaseY b), bottomE)
                else (js_mul (Num a) (phaseY b), topE, Num 0, bottomE)))"
  using assms
  by (auto simp: feedPlain_def Let_def addBar_barAt)

text \<open>
  C5. The claim: for every entry that is not stacked the phase multiplies the edge away
  from zero and only that edge. An inverted buffer with phase 1/2 stores the entry
  with x = 1 and y = -5 as (left 0, top 3/2, right -5, bottom 1/2): the far edge is -5
  and not -5/2. The same entry in a buffer that is not inverted gives the far edge
  -5/2, and the value 5 gives 5/2 in the inverted buffer.
\<close>

theorem feed_inverted_negative_entry:
  "map_option buffer
     (feed (exBuffer False True (Num (1 / 2)) 4) (exOneEntrySet exNegativeEntry))
     = Some [Num 0, Num (3 / 2), Num (- 5), Num (1 / 2)]
   \<and> map_option buffer
     (feed (exBuffer False False (Num (1 / 2)) 4) (exOneEntrySet exNegativeEntry))
     = Some [Num (- 5 / 2), Num (3 / 2), Num 0, Num (1 / 2)]
   \<and> map_option buffer
     (feed (exBuffer False True (Num (1 / 2)) 4) (exOneEntrySet exPlainEntry))
     = Some [Num (5 / 2), Num (3 / 2), Num 0, Num (1 / 2)]"
  by (simp add: feed_defs js_cmp_defs exBuffer_def exOneEntrySet_def exNegativeEntry_def
          exPlainEntry_def exProps_def)

lemma spanEnd_stackBar [simp]: "spanEnd b (stackBar b x r) = js_mul (snd r) (phaseY b)"
  by (simp add: spanEnd_def stackBar_def Let_def)

lemma spanStart_stackBar [simp]: "spanStart b (stackBar b x r) = js_mul (fst r) (phaseY b)"
  by (simp add: spanStart_def stackBar_def Let_def)

lemma isFinite_js_neg: "isFinite a \<Longrightarrow> isFinite (js_neg a)"
  by (cases a) simp_all

text \<open>
  C6. A stacked entry with finite components, fed to a buffer that holds stacks and has
  room for them, appends one rectangle per component, in the order of the components:
  the rectangle of the \<open>k\<close>-th range of the two-cursor walk that starts at 0 and at
  \<open>-negativeSum\<close>, both ends scaled by the phase. For two consecutive components of the
  same sign, the end of the main-axis span of the first rectangle is the start of that
  of the second.
\<close>

theorem feedEntry_stacked:
  assumes "mContainsStacks b" and "yVals e = Some vals"
    and "list_all isFinite vals" and "isFinite (negativeSum e)"
    and "index b + 4 * length vals \<le> length (buffer b)"
  shows "index (feedEntry b e) = index b + 4 * length vals
    \<and> (\<forall>k<length vals.
          barAt (buffer (feedEntry b e)) (index b + 4 * k)
            = stackBar b (props e ''x'')
                (stackRanges (Num 0) (js_neg (negativeSum e)) vals ! k))
    \<and> (\<forall>k. Suc k < length vals
            \<and> js_ge (vals ! k) (Num 0) = js_ge (vals ! Suc k) (Num 0)
          \<longrightarrow> spanEnd b (barAt (buffer (feedEntry b e)) (index b + 4 * k))
              = spanStart b (barAt (buffer (feedEntry b e)) (index b + 4 * Suc k)))"
proof -
  let ?x = "props e ''x''"
  let ?n = "js_neg (negativeSum e)"
  have fe: "feedEntry b e = fillStack b ?x (Num 0) ?n vals"
    using assms(1,2) by (simp add: feedEntry_def)
  have fn: "isFinite ?n" using assms(4) by (rule isFinite_js_neg)
  have bars: "barAt (buffer (feedEntry b e)) (index b + 4 * k)
                = stackBar b ?x (stackRanges (Num 0) ?n vals ! k)" if "k < length vals" for k
    unfolding fe using fillStack_bars [OF _ fn assms(3,5) that, of "Num 0" ?x] by simp
  have contig: "spanEnd b (barAt (buffer (feedEntry b e)) (index b + 4 * k))
              = spanStart b (barAt (buffer (feedEntry b e)) (index b + 4 * Suc k))"
    if "Suc k < length vals" "js_ge (vals ! k) (Num 0) = js_ge (vals ! Suc k) (Num 0)" for k
  proof -
    from that(1) have k: "k < length vals" by simp
    show ?thesis
      using bars [OF k] bars [OF that(1)] stackRanges_contiguous [OF that, of "Num 0" ?n]
      by simp
  qed
  show ?thesis using bars contig by (simp add: fe)
qed

theorem feedEntry_stacked_witness:
  "index (feedEntry (exBuffer True False (Num 1) 12) exStackedEntry3) = 12
   \<and> buffer (feedEntry (exBuffer True False (Num 1) 12) exStackedEntry3)
       = [Num 0, Num (1 / 2), Num 3, Num (- 1 / 2),
          Num 3, Num (1 / 2), Num 5, Num (- 1 / 2),
          Num (- 2), Num (1 / 2), Num 0, Num (- 1 / 2)]
   \<and> spanEnd (exBuffer True False (Num 1) 12)
        (barAt (buffer (feedEntry (exBuffer True False (Num 1) 12) exStackedEntry3)) 0)
       = Num 3
   \<and> spanStart (exBuffer True False (Num 1) 12)
        (barAt (buffer (feedEntry (exBuffer True False (Num 1) 12) exStackedEntry3)) 4)
       = Num 3
   \<and> buffer (feedEntry (exBuffer True False (Num 1) 8) exStackedEntry)
       = [Num 0, Num (1 / 2), Num 3, Num (- 1 / 2),
          Num (- 2), Num (1 / 2), Num 0, Num (- 1 / 2)]
   \<and> map_option buffer (feed (exBuffer True False (Num 1) 8) (exOneEntrySet exStackedEntry))
       = Some [Num 0, Num (1 / 2), Num 3, Num (- 1 / 2),
               Num (- 2), Num (1 / 2), Num 0, Num (- 1 / 2)]"
proof -
  have whole: "map_option buffer
                 (feed (exBuffer True False (Num 1) 8) (exOneEntrySet exStackedEntry))
       = Some [Num 0, Num (1 / 2), Num 3, Num (- 1 / 2),
               Num (- 2), Num (1 / 2), Num 0, Num (- 1 / 2)]"
    by (simp add: feed_defs js_cmp_defs exBuffer_def exOneEntrySet_def exStackedEntry_def
          exProps_def)
  let ?b = "exBuffer True False (Num 1) 12"
  let ?c = "exBuffer True False (Num 1) 8"
  have a: "mContainsStacks ?b" "yVals exStackedEntry3 = Some [Num 3, Num 2, Num (- 2)]"
    "list_all isFinite [Num 3, Num 2, Num (- 2)]" "isFinite (negativeSum exStackedEntry3)"
    "index ?b + 4 * length [Num 3, Num 2, Num (- 2)] \<le> length (buffer ?b)"
    by (simp_all add: exBuffer_def exStackedEntry3_def)
  have c: "mContainsStacks ?c" "yVals exStackedEntry = Some [Num 3, Num (- 2)]"
    "list_all isFinite [Num 3, Num (- 2)]" "isFinite (negativeSum exStackedEntry)"
    "index ?c + 4 * length [Num 3, Num (- 2)] \<le> length (buffer ?c)"
    by (simp_all add: exBuffer_def exStackedEntry_def)
  have s: "Suc 0 < length [Num 3, Num 2, Num (- 2)]
     \<and> js_ge ([Num 3, Num 2, Num (- 2)] ! 0) (Num 0) = js_ge ([Num 3, Num 2, Num (- 2)] ! Suc 0) (Num 0)"
    by simp
  have buf: "buffer (feedEntry ?b exStackedEntry3)
       = [Num 0, Num (1 / 2), Num 3, Num (- 1 / 2),
          Num 3, Num (1 / 2), Num 5, Num (- 1 / 2),
          Num (- 2), Num (1 / 2), Num 0, Num (- 1 / 2)]"
    by (simp add: feed_defs exBuffer_def exStackedEntry3_def exProps_def)
  have buf2: "buffer (feedEntry ?c exStackedEntry)
       = [Num 0, Num (1 / 2), Num 3, Num (- 1 / 2),
          Num (- 2), Num (1 / 2), Num 0, Num (- 1 / 2)]"
    by (simp add: feed_defs exBuffer_def exStackedEntry_def exProps_def)
  from feedEntry_stacked [OF a] have i: "index (feedEntry ?b exStackedEntry3) = 12"
    by (simp add: exBuffer_def)
  from feedEntry_stacked [OF a] s
  have e: "spanEnd ?b (barAt (buffer (feedEntry ?b exStackedEntry3)) (index ?b + 4 * 0))
         = spanStart ?b (barAt (buffer (feedEntry ?b exStackedEntry3)) (index ?b + 4 * Suc 0))"
    by blast
  have s0: "spanEnd ?b (barAt (buffer (feedEntry ?b exStackedEntry3)) 0) = Num 3"
    unfolding buf by (simp add: spanEnd_def barAt_def exBuffer_def)
  from e s0 have s4: "spanStart ?b (barAt (buffer (feedEntry ?b exStackedEntry3)) 4) = Num 3"
    by (simp add: exBuffer_def)
  from feedEntry_stacked [OF c] have "index (feedEntry ?c exStackedEntry) = 8"
    by (simp add: exBuffer_def)
  with i buf s0 s4 buf2 whole show ?thesis by simp
qed


end
